theory Spec2Isabelle
  imports Complex_Main
begin

unbundle bit_operations_syntax

section \<open>JavaScript numbers and arrays as the simulator uses them\<close>

text \<open>
  The simulator stores every \<open>Word\<close>, \<open>Address\<close> and register index in a JavaScript
  number. All numbers it computes are integers (immediates are sign-extended 16-bit
  fields, ALU results pass through \<open>>>> 0\<close> or a bitwise operator), so a number is an
  \<open>int\<close> here. A read of a missing array element or property gives \<open>undefined\<close>, which
  can then be stored like any value: \<open>jsval\<close> has it as a second constructor.
\<close>

datatype jsval = Num int | Undefined

definition toUint32 :: "int \<Rightarrow> int" where
  \<comment> \<open>\<open>n >>> 0\<close> on a number\<close>
  "toUint32 n = n mod 4294967296"

definition toInt32 :: "int \<Rightarrow> int" where
  \<comment> \<open>\<open>n | 0\<close> on a number\<close>
  "toInt32 n = (let u = n mod 4294967296 in if 2147483648 \<le> u then u - 4294967296 else u)"

fun jsUint32 :: "jsval \<Rightarrow> int" where
  \<comment> \<open>\<open>v >>> 0\<close>: \<open>undefined\<close> converts to NaN and then to 0\<close>
  "jsUint32 (Num n) = toUint32 n"
| "jsUint32 Undefined = 0"

fun jsInt32 :: "jsval \<Rightarrow> int" where
  \<comment> \<open>\<open>v | 0\<close>\<close>
  "jsInt32 (Num n) = toInt32 n"
| "jsInt32 Undefined = 0"

definition jsRem :: "int \<Rightarrow> int \<Rightarrow> int" where
  \<comment> \<open>\<open>a % b\<close> for a positive integer \<open>b\<close>: the sign follows the dividend\<close>
  "jsRem a b = (if a < 0 then - ((- a) mod b) else a mod b)"

definition jsIndex :: "'a list \<Rightarrow> int \<Rightarrow> 'a option" where
  \<comment> \<open>\<open>xs[i]\<close> on an array without extra properties: \<open>None\<close> stands for \<open>undefined\<close>\<close>
  "jsIndex xs i = (if 0 \<le> i \<and> i < int (length xs) then Some (xs ! nat i) else None)"

text \<open>
  The cycle bound \<open>maxCycles\<close> is a number the caller supplies, and it is compared
  but never computed with: it may be any double, infinite or NaN. A finite double is
  a rational number. A counter that \<open>++\<close> advances from 0 is exact up to \<open>2^53\<close>
  and stays there, since \<open>2^53 + 1\<close> rounds back to \<open>2^53\<close>.
\<close>

datatype jsnumber = Finite rat | PlusInfinity | MinusInfinity | NaN

fun reached :: "nat \<Rightarrow> jsnumber \<Rightarrow> bool" where
  \<comment> \<open>\<open>counter >= bound\<close>\<close>
  "reached c (Finite m) = (m \<le> of_nat c)"
| "reached c PlusInfinity = False"
| "reached c MinusInfinity = True"
| "reached c NaN = False"

definition increment :: "nat \<Rightarrow> nat" where
  \<comment> \<open>\<open>counter++\<close>; a counter starts at 0, so it never exceeds \<open>2^53\<close>\<close>
  "increment c = (if c < 9007199254740992 then c + 1 else c)"

text \<open>
  The global memory array is written at computed indices without a bounds check in
  several places. JavaScript then stores the value all the same: at an index
  \<open>length \<le> i < 2^32 - 1\<close> the array grows to length \<open>i + 1\<close> (the skipped elements
  read as \<open>undefined\<close>), at any other integer key the value becomes a property of the
  array object and the length stays. A \<open>jsarray\<close> is therefore a length together with
  the value stored under every integer key.
\<close>

record jsarray =
  alength :: nat
  aget :: "int \<Rightarrow> jsval"

definition newArrayFill0 :: "nat \<Rightarrow> jsarray" where
  \<comment> \<open>\<open>new Array(n).fill(0)\<close>\<close>
  "newArrayFill0 n =
     \<lparr>alength = n, aget = (\<lambda>i. if 0 \<le> i \<and> i < int n then Num 0 else Undefined)\<rparr>"

definition aset :: "jsarray \<Rightarrow> int \<Rightarrow> jsval \<Rightarrow> jsarray" where
  \<comment> \<open>\<open>a[i] = v\<close>\<close>
  "aset a i v =
     \<lparr>alength = (if int (alength a) \<le> i \<and> i < 4294967295 then nat i + 1 else alength a),
      aget = (aget a)(i := v)\<rparr>"

definition afill0 :: "jsarray \<Rightarrow> jsarray" where
  \<comment> \<open>\<open>a.fill(0)\<close>: every index below the length, holes included\<close>
  "afill0 a =
     \<lparr>alength = alength a,
      aget = (\<lambda>i. if 0 \<le> i \<and> i < int (alength a) then Num 0 else aget a i)\<rparr>"

section \<open>Instruction decoder (instruction-set/decoder.ts)\<close>

text \<open>
  An \<open>Instruction\<close> is an object with a string opcode and optional fields; a field
  that the decoder does not set is \<open>None\<close>.
\<close>

record instruction =
  opcode :: string
  rd :: "int option"
  rs1 :: "int option"
  rs2 :: "int option"
  immediate :: "int option"

definition opcodes :: "(int \<times> string) list" where
  "opcodes =
     [(0, ''NOP''), (1, ''CONST''), (2, ''ADD''), (3, ''SUB''), (4, ''MUL''), (5, ''DIV''),
      (6, ''AND''), (7, ''OR''), (8, ''XOR''), (9, ''LDR''), (10, ''STR''), (11, ''BR''),
      (12, ''BRz''), (13, ''BRnz''), (14, ''BRn''), (15, ''BRp''), (16, ''CMP''),
      (17, ''RET'')]"

definition opcodeToString :: "int \<Rightarrow> string" where
  \<comment> \<open>\<open>opcodes[opcode] || 'NOP'\<close>\<close>
  "opcodeToString opc = (case map_of opcodes opc of Some s \<Rightarrow> s | None \<Rightarrow> ''NOP'')"

definition opcodeNum :: "jsval \<Rightarrow> int" where
  \<comment> \<open>\<open>(instruction >>> 24) & 0xff\<close>\<close>
  "opcodeNum w = (jsUint32 w div 16777216) mod 256"

definition getOpcode :: "jsval \<Rightarrow> string" where
  "getOpcode w = opcodeToString (opcodeNum w)"

definition getRd :: "jsval \<Rightarrow> int" where
  \<comment> \<open>\<open>(instruction >>> 20) & 0xf\<close>\<close>
  "getRd w = (jsUint32 w div 1048576) mod 16"

definition getRs1 :: "jsval \<Rightarrow> int" where
  \<comment> \<open>\<open>(instruction >>> 16) & 0xf\<close>\<close>
  "getRs1 w = (jsUint32 w div 65536) mod 16"

definition getRs2 :: "jsval \<Rightarrow> int" where
  \<comment> \<open>\<open>(instruction >>> 12) & 0xf\<close>\<close>
  "getRs2 w = (jsUint32 w div 4096) mod 16"

definition getImmediate :: "jsval \<Rightarrow> int" where
  \<comment> \<open>\<open>imm = instruction & 0xffff; (imm & 0x8000) ? (imm | 0xffff0000) : imm\<close>\<close>
  "getImmediate w =
     (let imm = jsUint32 w mod 65536
      in if (imm div 32768) mod 2 \<noteq> 0 then imm - 65536 else imm)"

definition noFields :: "string \<Rightarrow> instruction" where
  "noFields opc = \<lparr>opcode = opc, rd = None, rs1 = None, rs2 = None, immediate = None\<rparr>"

definition decode :: "jsval \<Rightarrow> instruction" where
  "decode w =
     (let opc = getOpcode w in
      if opc = ''CONST'' then
        (noFields ''CONST'')\<lparr>rd := Some (getRd w), immediate := Some (getImmediate w)\<rparr>
      else if opc \<in> {''ADD'', ''SUB'', ''MUL'', ''DIV'', ''AND'', ''OR'', ''XOR''} then
        (noFields opc)\<lparr>rd := Some (getRd w), rs1 := Some (getRs1 w), rs2 := Some (getRs2 w)\<rparr>
      else if opc \<in> {''LDR'', ''STR''} then
        (noFields opc)\<lparr>rd := Some (getRd w), rs1 := Some (getRs1 w),
                        immediate := Some (getImmediate w)\<rparr>
      else if opc \<in> {''BR'', ''BRz'', ''BRnz'', ''BRn'', ''BRp''} then
        (noFields opc)\<lparr>rs1 := Some (getRs1 w), immediate := Some (getImmediate w)\<rparr>
      else if opc = ''CMP'' then
        (noFields ''CMP'')\<lparr>rs1 := Some (getRs1 w), rs2 := Some (getRs2 w)\<rparr>
      else if opc = ''RET'' then noFields ''RET''
      else noFields ''NOP'')"

section \<open>Register file (core/register-file.ts)\<close>

text \<open>
  \<open>Map<number, Word[]>\<close> from thread id to that thread's 16 registers. \<open>read\<close>
  allocates the registers of an unknown thread, so it returns the file as well.
\<close>

type_synonym registerFile = "int \<Rightarrow> jsval list option"

definition numRegisters :: int where
  "numRegisters = 16"

definition RegisterFile_new :: registerFile where
  "RegisterFile_new = (\<lambda>_. None)"

definition RegisterFile_initializeThread :: "registerFile \<Rightarrow> int \<Rightarrow> registerFile" where
  "RegisterFile_initializeThread rf threadId =
     (if rf threadId = None then rf(threadId \<mapsto> replicate (nat numRegisters) (Num 0)) else rf)"

definition RegisterFile_read :: "registerFile \<Rightarrow> int \<Rightarrow> int \<Rightarrow> jsval \<times> registerFile" where
  "RegisterFile_read rf threadId reg =
     (case rf threadId of
        None \<Rightarrow> (Num 0, RegisterFile_initializeThread rf threadId)
      | Some threadRegs \<Rightarrow>
          (if 0 \<le> reg \<and> reg < numRegisters
           then (case jsIndex threadRegs reg of Some v \<Rightarrow> v | None \<Rightarrow> Undefined)
           else Num 0,
           rf))"

definition RegisterFile_write :: "registerFile \<Rightarrow> int \<Rightarrow> int \<Rightarrow> jsval \<Rightarrow> registerFile" where
  "RegisterFile_write rf threadId reg v =
     (let rf' = RegisterFile_initializeThread rf threadId
      in case rf' threadId of
           None \<Rightarrow> rf'
         | Some threadRegs \<Rightarrow>
             if 0 \<le> reg \<and> reg < numRegisters
             then rf'(threadId \<mapsto> threadRegs[nat reg := v])
             else rf')"

definition RegisterFile_getRegisters :: "registerFile \<Rightarrow> int \<Rightarrow> jsval list \<times> registerFile" where
  "RegisterFile_getRegisters rf threadId =
     (case rf threadId of
        None \<Rightarrow> (replicate (nat numRegisters) (Num 0), RegisterFile_initializeThread rf threadId)
      | Some threadRegs \<Rightarrow> (threadRegs, rf))"

definition RegisterFile_clearAll :: "registerFile \<Rightarrow> registerFile" where
  "RegisterFile_clearAll rf = (\<lambda>_. None)"

section \<open>Execution unit (core/execution-unit.ts)\<close>

record ALUResult =
  result :: int
  zero :: bool
  negative :: bool
  overflow :: bool

fun ilog2 :: "nat \<Rightarrow> nat" where
  \<comment> \<open>the integer part of the binary logarithm, 0 for 0 and 1\<close>
  "ilog2 n = (if n < 2 then 0 else Suc (ilog2 (n div 2)))"

declare ilog2.simps [simp del]

definition roundToDouble :: "int \<Rightarrow> int" where
  \<comment> \<open>the double nearest to an integer (53-bit significand, ties to even), as the
      product of two numbers is rounded\<close>
  "roundToDouble n =
     (let m = \<bar>n\<bar> in
      if m < 9007199254740992 then n
      else let e = ilog2 (nat m) - 52;
               q = m div 2 ^ e;
               r = m mod 2 ^ e;
               q' = (if 2 ^ (e - 1) < r \<or> (r = 2 ^ (e - 1) \<and> odd q) then q + 1 else q)
           in sgn n * q' * 2 ^ e)"

fun add :: "jsval \<Rightarrow> jsval \<Rightarrow> int" where
  \<comment> \<open>\<open>(a + b) >>> 0\<close>; a sum with \<open>undefined\<close> is NaN, which converts to 0\<close>
  "add (Num a) (Num b) = toUint32 (a + b)"
| "add _ _ = 0"

fun subtract :: "jsval \<Rightarrow> jsval \<Rightarrow> int" where
  \<comment> \<open>\<open>(a - b) >>> 0\<close>\<close>
  "subtract (Num a) (Num b) = toUint32 (a - b)"
| "subtract _ _ = 0"

fun multiply :: "jsval \<Rightarrow> jsval \<Rightarrow> int" where
  \<comment> \<open>\<open>(a * b) >>> 0\<close>, the product being a double\<close>
  "multiply (Num a) (Num b) = toUint32 (roundToDouble (a * b))"
| "multiply _ _ = 0"

definition divide :: "jsval \<Rightarrow> jsval \<Rightarrow> int" where
  \<comment> \<open>\<open>if (b === 0) return 0; return Math.floor((a | 0) / (b | 0)) >>> 0\<close>; a quotient
      by \<open>(b | 0) = 0\<close> is infinite or NaN and converts to 0\<close>
  "divide a b =
     (if b = Num 0 then 0
      else if jsInt32 b = 0 then 0
      else toUint32 (jsInt32 a div jsInt32 b))"

definition checkAddOverflow :: "jsval \<Rightarrow> jsval \<Rightarrow> int \<Rightarrow> bool" where
  "checkAddOverflow a b res =
     (let aSigned = jsInt32 a; bSigned = jsInt32 b; resultSigned = toInt32 res
      in (aSigned > 0 \<and> bSigned > 0 \<and> resultSigned < 0) \<or>
         (aSigned < 0 \<and> bSigned < 0 \<and> resultSigned > 0))"

definition checkSubOverflow :: "jsval \<Rightarrow> jsval \<Rightarrow> int \<Rightarrow> bool" where
  "checkSubOverflow a b res =
     (let aSigned = jsInt32 a; bSigned = jsInt32 b; resultSigned = toInt32 res
      in (aSigned > 0 \<and> bSigned < 0 \<and> resultSigned < 0) \<or>
         (aSigned < 0 \<and> bSigned > 0 \<and> resultSigned > 0))"

definition checkMulOverflow :: "jsval \<Rightarrow> jsval \<Rightarrow> int \<Rightarrow> bool" where
  "checkMulOverflow a b res =
     (let aSigned = jsInt32 a; bSigned = jsInt32 b; resultSigned = toInt32 res;
          expected = roundToDouble (aSigned * bSigned)
      in resultSigned \<noteq> expected)"

definition ExecutionUnit_executeALU ::
  "registerFile \<Rightarrow> int \<Rightarrow> string \<Rightarrow> int \<Rightarrow> int \<Rightarrow> ALUResult \<times> registerFile" where
  "ExecutionUnit_executeALU rf threadId op r1 r2 =
     (let (val1, rf1) = RegisterFile_read rf threadId r1;
          (val2, rf2) = (if r2 < 16 then RegisterFile_read rf1 threadId r2 else (Num r2, rf1));
          (res, ovf) =
            (if op = ''ADD'' then (add val1 val2, checkAddOverflow val1 val2 (add val1 val2))
             else if op = ''SUB'' then
               (subtract val1 val2, checkSubOverflow val1 val2 (subtract val1 val2))
             else if op = ''MUL'' then
               (multiply val1 val2, checkMulOverflow val1 val2 (multiply val1 val2))
             else if op = ''DIV'' then (divide val1 val2, False)
             else if op = ''AND'' then (jsInt32 val1 AND jsInt32 val2, False)
             else if op = ''OR'' then (jsInt32 val1 OR jsInt32 val2, False)
             else if op = ''XOR'' then (jsInt32 val1 XOR jsInt32 val2, False)
             else if op = ''SHL'' then
               (toInt32 (jsInt32 val1 * 2 ^ nat (jsInt32 val2 AND 31)), False)
             else if op = ''SHR'' then (jsUint32 val1 div 2 ^ nat (jsInt32 val2 AND 31), False)
             else if op = ''SRA'' then (jsInt32 val1 div 2 ^ nat (jsInt32 val2 AND 31), False)
             else (0, False))
      in (\<lparr>result = res, zero = (res = 0), negative = (toInt32 res < 0), overflow = ovf\<rparr>,
          rf2))"

definition ExecutionUnit_compare ::
  "registerFile \<Rightarrow> int \<Rightarrow> int \<Rightarrow> int \<Rightarrow> (bool \<times> bool \<times> bool) \<times> registerFile" where
  \<comment> \<open>\<open>{equal, less, greater}\<close>\<close>
  "ExecutionUnit_compare rf threadId r1 r2 =
     (let (val1, rf1) = RegisterFile_read rf threadId r1;
          (val2, rf2) = (if r2 < 16 then RegisterFile_read rf1 threadId r2 else (Num r2, rf1))
      in ((val1 = val2, jsInt32 val1 < jsInt32 val2, jsInt32 val1 > jsInt32 val2), rf2))"

text \<open>
  The overflow laws of two's-complement arithmetic on 32-bit words, written from the
  specification: \<open>signBit\<close> is bit 31 of a word \<open>0 \<le> a < 2^32\<close>.
\<close>

definition signBit :: "int \<Rightarrow> bool" where
  "signBit a = (2147483648 \<le> a mod 4294967296)"

definition addOverflowLaw :: "int \<Rightarrow> int \<Rightarrow> bool" where
  "addOverflowLaw a b =
     (signBit a = signBit b \<and> signBit ((a + b) mod 4294967296) \<noteq> signBit a)"

definition subOverflowLaw :: "int \<Rightarrow> int \<Rightarrow> bool" where
  "subOverflowLaw a b =
     (signBit a \<noteq> signBit b \<and> signBit ((a - b) mod 4294967296) \<noteq> signBit a)"

definition regsOf :: "jsval list \<Rightarrow> registerFile" where
  \<comment> \<open>a register file holding thread 0 with the given first registers\<close>
  "regsOf vs = (\<lambda>_. None)(0 \<mapsto> vs @ replicate (16 - length vs) (Num 0))"

section \<open>Cache (memory/cache.ts)\<close>

text \<open>
  The configuration gives sizes in words and lines; the model covers configurations
  whose \<open>lineSize\<close> is a positive integer (with \<open>lineSize = 0\<close> the offset
  \<open>address % lineSize\<close> is NaN). \<open>Math.log2(cacheSize)\<close> enters a shift count, which
  JavaScript truncates to an integer and reduces modulo 32; \<open>ilog2\<close> is the integer
  part of the logarithm.
  An access to \<open>this.lines[lineIndex]\<close> outside the array gives \<open>undefined\<close>, and
  reading \<open>.valid\<close> from it raises a TypeError.
\<close>

datatype error = TypeError

record memoryConfig =
  globalMemorySize :: nat
  cacheSize :: nat
  lineSize :: nat
  latency :: nat

record cacheLine =
  tag :: int
  line_data :: jsarray
  valid :: bool
  dirty :: bool

record cache =
  lines :: "cacheLine list"
  config :: memoryConfig
  hits :: nat
  misses :: nat

definition Cache_new :: "memoryConfig \<Rightarrow> cache" where
  "Cache_new cfg =
     \<lparr>lines = replicate (cacheSize cfg)
                \<lparr>tag = 0, line_data = newArrayFill0 (lineSize cfg), valid = False, dirty = False\<rparr>,
      config = cfg, hits = 0, misses = 0\<rparr>"

definition getLineIndex :: "cache \<Rightarrow> int \<Rightarrow> int" where
  \<comment> \<open>\<open>(address >> 2) % this.config.cacheSize\<close>\<close>
  "getLineIndex c addr = jsRem (toInt32 addr div 4) (int (cacheSize (config c)))"

definition tagShift :: "nat \<Rightarrow> nat" where
  \<comment> \<open>the shift count \<open>2 + Math.log2(cacheSize)\<close> as \<open>>>\<close> takes it: truncated to an
      integer and reduced modulo 32; \<open>Math.log2(0)\<close> is \<open>-Infinity\<close>, which counts as 0\<close>
  "tagShift n = (if n = 0 then 0 else (2 + ilog2 n) mod 32)"

definition getTag :: "cache \<Rightarrow> int \<Rightarrow> int" where
  \<comment> \<open>\<open>address >> (2 + Math.log2(this.config.cacheSize))\<close>\<close>
  "getTag c addr = toInt32 addr div 2 ^ tagShift (cacheSize (config c))"

definition getOffset :: "cache \<Rightarrow> int \<Rightarrow> int" where
  \<comment> \<open>\<open>address % this.config.lineSize\<close>\<close>
  "getOffset c addr = jsRem addr (int (lineSize (config c)))"

definition writeBack :: "jsarray \<Rightarrow> int \<Rightarrow> jsarray \<Rightarrow> nat \<Rightarrow> jsarray" where
  \<comment> \<open>\<open>for i < lineSize: if (base + i < memory.length) memory[base + i] = data[i]\<close>\<close>
  "writeBack mem base dat n =
     fold (\<lambda>i m. if base + int i < int (alength m) then aset m (base + int i) (aget dat (int i))
                  else m)
          [0..<n] mem"

definition loadWords :: "jsarray \<Rightarrow> jsarray \<Rightarrow> int \<Rightarrow> nat \<Rightarrow> jsarray" where
  \<comment> \<open>\<open>for i < lineSize: data[i] = (base + i < memory.length) ? memory[base + i] : 0\<close>\<close>
  "loadWords dat mem base n =
     fold (\<lambda>i d. aset d (int i)
                   (if base + int i < int (alength mem) then aget mem (base + int i) else Num 0))
          [0..<n] dat"

definition loadLine :: "cache \<Rightarrow> int \<Rightarrow> jsarray \<Rightarrow> error + (cache \<times> jsarray)" where
  "loadLine c addr mem =
     (let lineIndex = getLineIndex c addr;
          newTag = getTag c addr;
          baseAddress = toInt32 ((toInt32 addr div 4) * 4)
      in case jsIndex (lines c) lineIndex of
           None \<Rightarrow> Inl TypeError
         | Some line \<Rightarrow>
             let n = lineSize (config c);
                 oldBaseAddress = toInt32 (tag line * 4) OR toInt32 (lineIndex * 4);
                 mem' = (if valid line \<and> dirty line
                         then writeBack mem oldBaseAddress (line_data line) n else mem);
                 line' = \<lparr>tag = newTag, line_data = loadWords (line_data line) mem' baseAddress n,
                          valid = True, dirty = False\<rparr>
             in Inr (c\<lparr>lines := (lines c)[nat lineIndex := line']\<rparr>, mem'))"

definition Cache_read :: "cache \<Rightarrow> int \<Rightarrow> jsarray \<Rightarrow> error + ((jsval \<times> bool) \<times> cache \<times> jsarray)" where
  \<comment> \<open>returns \<open>{data, hit}\<close>, the cache and the memory array\<close>
  "Cache_read c addr mem =
     (let lineIndex = getLineIndex c addr;
          newTag = getTag c addr;
          offset = getOffset c addr
      in case jsIndex (lines c) lineIndex of
           None \<Rightarrow> Inl TypeError
         | Some line \<Rightarrow>
             if valid line \<and> tag line = newTag
             then Inr ((aget (line_data line) offset, True), c\<lparr>hits := hits c + 1\<rparr>, mem)
             else (case loadLine (c\<lparr>misses := misses c + 1\<rparr>) addr mem of
                     Inl e \<Rightarrow> Inl e
                   | Inr (c', mem') \<Rightarrow>
                       (case jsIndex (lines c') lineIndex of
                          None \<Rightarrow> Inl TypeError
                        | Some line' \<Rightarrow>
                            Inr ((aget (line_data line') offset, False), c', mem'))))"

definition Cache_write ::
  "cache \<Rightarrow> int \<Rightarrow> jsval \<Rightarrow> jsarray \<Rightarrow> error + (bool \<times> cache \<times> jsarray)" where
  "Cache_write c addr v mem =
     (let lineIndex = getLineIndex c addr;
          newTag = getTag c addr;
          offset = getOffset c addr
      in case jsIndex (lines c) lineIndex of
           None \<Rightarrow> Inl TypeError
         | Some line \<Rightarrow>
             if valid line \<and> tag line = newTag
             then Inr (True,
                       c\<lparr>lines := (lines c)[nat lineIndex :=
                                    line\<lparr>line_data := aset (line_data line) offset v,
                                         dirty := True\<rparr>],
                         hits := hits c + 1\<rparr>,
                       aset mem addr v)
             else (case loadLine (c\<lparr>misses := misses c + 1\<rparr>) addr mem of
                     Inl e \<Rightarrow> Inl e
                   | Inr (c', mem') \<Rightarrow>
                       (case jsIndex (lines c') lineIndex of
                          None \<Rightarrow> Inl TypeError
                        | Some line' \<Rightarrow>
                            Inr (True,
                                 c'\<lparr>lines := (lines c')[nat lineIndex :=
                                               line'\<lparr>line_data := aset (line_data line') offset v,
                                                     dirty := True\<rparr>]\<rparr>,
                                 aset mem' addr v))))"

record cacheStats =
  stat_hits :: nat
  stat_misses :: nat
  hitRate :: real

definition Cache_getStats :: "cache \<Rightarrow> cacheStats" where
  \<comment> \<open>the quotient is the exact one; the source rounds it to a double\<close>
  "Cache_getStats c =
     (let total = hits c + misses c
      in \<lparr>stat_hits = hits c, stat_misses = misses c,
          hitRate = (if total > 0 then real (hits c) / real total else 0)\<rparr>)"

definition Cache_resetStats :: "cache \<Rightarrow> cache" where
  "Cache_resetStats c = c\<lparr>hits := 0, misses := 0\<rparr>"

text \<open>A client of the cache: reads and writes in sequence against one memory array.\<close>

datatype cacheOp = Read int | Write int jsval

fun runCacheOps ::
  "cacheOp list \<Rightarrow> cache \<times> jsarray \<Rightarrow> error + (jsval list \<times> cache \<times> jsarray)" where
  \<comment> \<open>the data of the reads, in order, and the final cache and memory\<close>
  "runCacheOps [] (c, mem) = Inr ([], c, mem)"
| "runCacheOps (Read a # ops) (c, mem) =
     (case Cache_read c a mem of
        Inl e \<Rightarrow> Inl e
      | Inr ((v, h), c', mem') \<Rightarrow>
          (case runCacheOps ops (c', mem') of
             Inl e \<Rightarrow> Inl e
           | Inr (vs, c'', mem'') \<Rightarrow> Inr (v # vs, c'', mem'')))"
| "runCacheOps (Write a v # ops) (c, mem) =
     (case Cache_write c a v mem of
        Inl e \<Rightarrow> Inl e
      | Inr (b, c', mem') \<Rightarrow> runCacheOps ops (c', mem'))"

fun opAddress :: "cacheOp \<Rightarrow> int" where
  "opAddress (Read a) = a"
| "opAddress (Write a v) = a"

section \<open>Memory controller (memory/memory-controller.ts)\<close>

record memoryRequest =
  req_address :: int
  req_data :: jsval
  req_write :: bool
  req_threadId :: int
  req_blockId :: int

record memoryResponse =
  resp_data :: jsval
  resp_valid :: bool

record memoryController =
  mc_memory :: jsarray
  mc_config :: memoryConfig
  pendingRequests :: "memoryRequest list"
  responseQueue :: "int \<Rightarrow> memoryResponse option"

definition MemoryController_new :: "memoryConfig \<Rightarrow> memoryController" where
  "MemoryController_new cfg =
     \<lparr>mc_memory = newArrayFill0 (globalMemorySize cfg), mc_config = cfg,
      pendingRequests = [], responseQueue = (\<lambda>_. None)\<rparr>"

definition MemoryController_request :: "memoryController \<Rightarrow> memoryRequest \<Rightarrow> memoryController" where
  "MemoryController_request mc req = mc\<lparr>pendingRequests := pendingRequests mc @ [req]\<rparr>"

definition getRequestId :: "memoryRequest \<Rightarrow> int" where
  "getRequestId req = req_threadId req * 1000000 + req_blockId req * 10000 + req_address req"

definition canCoalesce :: "memoryRequest \<Rightarrow> memoryRequest \<Rightarrow> bool" where
  "canCoalesce a b = (\<bar>req_address a - req_address b\<bar> \<le> 4 \<and> req_write a = req_write b)"

definition serviceRequest ::
  "memoryRequest \<Rightarrow> jsarray \<times> (int \<Rightarrow> memoryResponse option)
     \<Rightarrow> jsarray \<times> (int \<Rightarrow> memoryResponse option)" where
  \<comment> \<open>the statements both loops of \<open>processRequests\<close> run on a request: commit a
      write, then set the response under the request's id\<close>
  "serviceRequest req = (\<lambda>(mem, rq).
     let mem' = (if req_write req \<and> req_data req \<noteq> Undefined
                 then aset mem (req_address req) (req_data req) else mem)
     in (mem',
         rq(getRequestId req \<mapsto>
            \<lparr>resp_data = (if req_write req then req_data req else aget mem' (req_address req)),
             resp_valid = True\<rparr>)))"

fun coalesceLoop ::
  "memoryRequest list \<Rightarrow> memoryRequest option \<Rightarrow> memoryRequest list
     \<Rightarrow> jsarray \<times> (int \<Rightarrow> memoryResponse option)
     \<Rightarrow> memoryRequest option \<times> memoryRequest list \<times> jsarray \<times> (int \<Rightarrow> memoryResponse option)" where
  \<comment> \<open>the first loop: a request that coalesces with \<open>current\<close> is serviced at once,
      any other request becomes \<open>current\<close> and the old \<open>current\<close> is pushed\<close>
  "coalesceLoop [] current coalesced st = (current, coalesced, st)"
| "coalesceLoop (req # reqs) current coalesced st =
     (case current of
        Some cur \<Rightarrow>
          if canCoalesce cur req then coalesceLoop reqs current coalesced (serviceRequest req st)
          else coalesceLoop reqs (Some req) (coalesced @ [cur]) st
      | None \<Rightarrow> coalesceLoop reqs (Some req) coalesced st)"

definition MemoryController_processRequests :: "memoryController \<Rightarrow> memoryController" where
  "MemoryController_processRequests mc =
     (let sorted = sort_key req_address (pendingRequests mc);
          (current, coalesced, st) =
             coalesceLoop sorted None [] (mc_memory mc, responseQueue mc);
          coalesced' = (case current of Some cur \<Rightarrow> coalesced @ [cur] | None \<Rightarrow> coalesced);
          (mem', rq') = fold serviceRequest coalesced' st
      in mc\<lparr>mc_memory := mem', responseQueue := rq', pendingRequests := []\<rparr>)"

definition MemoryController_read :: "memoryController \<Rightarrow> int \<Rightarrow> jsval" where
  "MemoryController_read mc addr =
     (if 0 \<le> addr \<and> addr < int (alength (mc_memory mc)) then aget (mc_memory mc) addr
      else Num 0)"

definition MemoryController_write :: "memoryController \<Rightarrow> int \<Rightarrow> jsval \<Rightarrow> memoryController" where
  "MemoryController_write mc addr v =
     (if 0 \<le> addr \<and> addr < int (alength (mc_memory mc))
      then mc\<lparr>mc_memory := aset (mc_memory mc) addr v\<rparr> else mc)"

text \<open>
  Servicing without coalescing, written from the specification: every pending request
  is serviced on its own, one after the other in the order of the queue.
\<close>

definition serviceIndividually :: "memoryController \<Rightarrow> memoryController" where
  "serviceIndividually mc =
     (let (mem', rq') = fold serviceRequest (pendingRequests mc) (mc_memory mc, responseQueue mc)
      in mc\<lparr>mc_memory := mem', responseQueue := rq', pendingRequests := []\<rparr>)"

section \<open>Thread scheduler (core/thread-scheduler.ts)\<close>

text \<open>
  A warp holds the \<open>ThreadState\<close> objects of its threads. The engine reaches a thread
  only through the warp that holds it, so the warp's list is the thread's state here
  (each thread object is taken to be in one warp, as \<open>initializeBlocks\<close> builds them
  from distinct blocks).
\<close>

record threadState =
  thread_id :: int
  thread_blockId :: int
  pc :: int
  registers :: "jsval list"
  active :: bool

record blockState =
  block_id :: int
  block_threads :: "threadState list"

record warp =
  threads :: "threadState list"
  warp_active :: bool
  warp_pc :: int

record threadScheduler =
  warps :: "warp list"
  currentWarpIndex :: nat
  sched_cycle :: nat

definition warpSize :: nat where
  "warpSize = 32"

definition ThreadScheduler_new :: threadScheduler where
  "ThreadScheduler_new = \<lparr>warps = [], currentWarpIndex = 0, sched_cycle = 0\<rparr>"

fun slices :: "nat \<Rightarrow> 'a list \<Rightarrow> 'a list list" where
  \<comment> \<open>\<open>for (i = 0; i < xs.length; i += n) xs.slice(i, i + n)\<close>\<close>
  "slices n xs = (if xs = [] \<or> n = 0 then [] else take n xs # slices n (drop n xs))"

declare slices.simps [simp del]

definition makeWarp :: "threadState list \<Rightarrow> warp" where
  \<comment> \<open>\<open>{threads: warpThreads, active: true, pc: warpThreads[0]?.pc || 0}\<close>\<close>
  "makeWarp ts = \<lparr>threads = ts, warp_active = True,
                   warp_pc = (case ts of [] \<Rightarrow> 0 | t # _ \<Rightarrow> pc t)\<rparr>"

definition ThreadScheduler_initializeBlocks ::
  "threadScheduler \<Rightarrow> blockState list \<Rightarrow> threadScheduler" where
  "ThreadScheduler_initializeBlocks s blocks =
     s\<lparr>warps := concat (map (\<lambda>b. map makeWarp (slices warpSize (block_threads b))) blocks),
       currentWarpIndex := 0\<rparr>"

fun nextWarpLoop :: "warp list \<Rightarrow> nat \<Rightarrow> nat \<Rightarrow> error + (nat option \<times> nat)" where
  \<comment> \<open>the round-robin loop with the attempts left; gives the index of the warp
      returned and the new \<open>currentWarpIndex\<close>\<close>
  "nextWarpLoop ws idx 0 = Inr (None, idx)"
| "nextWarpLoop ws idx (Suc k) =
     (case jsIndex ws (int idx) of
        None \<Rightarrow> Inl TypeError
      | Some w \<Rightarrow>
          let idx' = (idx + 1) mod length ws
          in if warp_active w \<and> list_ex active (threads w) then Inr (Some idx, idx')
             else nextWarpLoop ws idx' k)"

definition ThreadScheduler_getNextWarp ::
  "threadScheduler \<Rightarrow> error + (nat option \<times> threadScheduler)" where
  "ThreadScheduler_getNextWarp s =
     (if warps s = [] then Inr (None, s)
      else case nextWarpLoop (warps s) (currentWarpIndex s) (length (warps s)) of
             Inl e \<Rightarrow> Inl e
           | Inr (w, idx') \<Rightarrow> Inr (w, s\<lparr>currentWarpIndex := idx'\<rparr>))"

definition ThreadScheduler_isComplete :: "threadScheduler \<Rightarrow> bool" where
  "ThreadScheduler_isComplete s =
     list_all (\<lambda>w. \<not> warp_active w \<or> list_all (\<lambda>t. \<not> active t) (threads w)) (warps s)"

definition ThreadScheduler_reset :: "threadScheduler \<Rightarrow> threadScheduler" where
  "ThreadScheduler_reset s = s\<lparr>warps := [], currentWarpIndex := 0, sched_cycle := 0\<rparr>"

definition ThreadScheduler_tick :: "threadScheduler \<Rightarrow> threadScheduler" where
  "ThreadScheduler_tick s = s\<lparr>sched_cycle := increment (sched_cycle s)\<rparr>"

section \<open>Instructions (instruction-set/instructions.ts)\<close>

text \<open>
  The \<open>InstructionContext\<close> gives an instruction the thread and the engine's register
  file, memory controller, cache and memory. The thread is only read; the other
  components are changed in place, so they are returned. The cache is \<open>null\<close> when
  the engine was configured with \<open>enableCache: false\<close>, and calling a method on it
  raises a TypeError.
\<close>

record instructionContext =
  ctx_registerFile :: registerFile
  ctx_memoryController :: memoryController
  ctx_cache :: "cache option"
  ctx_memory :: jsarray

record memoryAccess =
  acc_address :: int
  acc_data :: jsval
  acc_write :: bool

record instructionResult =
  nextPC :: int
  shouldBranch :: bool
  memAccess :: "memoryAccess option"

definition fallThrough :: "threadState \<Rightarrow> instructionResult" where
  \<comment> \<open>\<open>{nextPC: thread.pc + 1, shouldBranch: false}\<close>\<close>
  "fallThrough t = \<lparr>nextPC = pc t + 1, shouldBranch = False, memAccess = None\<rparr>"

definition executeCONST ::
  "instruction \<Rightarrow> threadState \<Rightarrow> instructionContext \<Rightarrow> instructionResult \<times> instructionContext" where
  "executeCONST i t ctx =
     (case (rd i, immediate i) of
        (Some d, Some imm) \<Rightarrow>
          (fallThrough t,
           ctx\<lparr>ctx_registerFile := RegisterFile_write (ctx_registerFile ctx) (thread_id t) d (Num imm)\<rparr>)
      | _ \<Rightarrow> (fallThrough t, ctx))"

definition executeALU ::
  "instruction \<Rightarrow> threadState \<Rightarrow> instructionContext \<Rightarrow> instructionResult \<times> instructionContext" where
  "executeALU i t ctx =
     (case (rd i, rs1 i, rs2 i) of
        (Some d, Some s1, Some s2) \<Rightarrow>
          let (res, rf) = ExecutionUnit_executeALU (ctx_registerFile ctx) (thread_id t) (opcode i) s1 s2
          in (fallThrough t,
              ctx\<lparr>ctx_registerFile := RegisterFile_write rf (thread_id t) d (Num (result res))\<rparr>)
      | _ \<Rightarrow> (fallThrough t, ctx))"

definition immediateOr0 :: "instruction \<Rightarrow> int" where
  \<comment> \<open>\<open>instruction.immediate || 0\<close>\<close>
  "immediateOr0 i = (case immediate i of None \<Rightarrow> 0 | Some imm \<Rightarrow> imm)"

definition executeLDR ::
  "instruction \<Rightarrow> threadState \<Rightarrow> instructionContext
     \<Rightarrow> error + (instructionResult \<times> instructionContext)" where
  "executeLDR i t ctx =
     (case (rd i, rs1 i) of
        (Some d, Some s1) \<Rightarrow>
          let (baseAddr, rf) = RegisterFile_read (ctx_registerFile ctx) (thread_id t) s1;
              addr = add baseAddr (Num (immediateOr0 i))
          in (case ctx_cache ctx of
                None \<Rightarrow> Inl TypeError
              | Some c \<Rightarrow>
                  (case Cache_read c addr (ctx_memory ctx) of
                     Inl e \<Rightarrow> Inl e
                   | Inr ((v, h), c', mem') \<Rightarrow>
                       Inr ((fallThrough t)
                              \<lparr>memAccess := Some \<lparr>acc_address = addr, acc_data = v, acc_write = False\<rparr>\<rparr>,
                            ctx\<lparr>ctx_registerFile := RegisterFile_write rf (thread_id t) d v,
                                ctx_cache := Some c', ctx_memory := mem'\<rparr>)))
      | _ \<Rightarrow> Inr (fallThrough t, ctx))"

definition executeSTR ::
  "instruction \<Rightarrow> threadState \<Rightarrow> instructionContext
     \<Rightarrow> error + (instructionResult \<times> instructionContext)" where
  "executeSTR i t ctx =
     (case (rs1 i, rs2 i) of
        (Some s1, Some s2) \<Rightarrow>
          let (baseAddr, rf) = RegisterFile_read (ctx_registerFile ctx) (thread_id t) s1;
              addr = add baseAddr (Num (immediateOr0 i));
              (v, rf') = RegisterFile_read rf (thread_id t) s2
          in (case ctx_cache ctx of
                None \<Rightarrow> Inl TypeError
              | Some c \<Rightarrow>
                  (case Cache_write c addr v (ctx_memory ctx) of
                     Inl e \<Rightarrow> Inl e
                   | Inr (b, c', mem') \<Rightarrow>
                       Inr ((fallThrough t)
                              \<lparr>memAccess := Some \<lparr>acc_address = addr, acc_data = v, acc_write = True\<rparr>\<rparr>,
                            ctx\<lparr>ctx_registerFile := rf', ctx_cache := Some c', ctx_memory := mem'\<rparr>)))
      | _ \<Rightarrow> Inr (fallThrough t, ctx))"

definition executeBranch ::
  "instruction \<Rightarrow> threadState \<Rightarrow> instructionContext \<Rightarrow> instructionResult \<times> instructionContext" where
  "executeBranch i t ctx =
     (let (taken, ctx') =
            (if opcode i = ''BR'' then (True, ctx)
             else case rs1 i of
                    None \<Rightarrow> (False, ctx)
                  | Some s1 \<Rightarrow>
                      let (v, rf) = RegisterFile_read (ctx_registerFile ctx) (thread_id t) s1;
                          isZero = (v = Num 0);
                          isNegative = (jsInt32 v < 0)
                      in ((if opcode i = ''BRz'' then isZero
                           else if opcode i = ''BRnz'' then \<not> isZero
                           else if opcode i = ''BRn'' then isNegative
                           else if opcode i = ''BRp'' then \<not> isNegative \<and> \<not> isZero
                           else False),
                          ctx\<lparr>ctx_registerFile := rf\<rparr>))
      in case immediate i of
           Some imm \<Rightarrow>
             if taken then (\<lparr>nextPC = pc t + imm, shouldBranch = True, memAccess = None\<rparr>, ctx')
             else (fallThrough t, ctx')
         | None \<Rightarrow> (fallThrough t, ctx'))"

definition executeCMP ::
  "instruction \<Rightarrow> threadState \<Rightarrow> instructionContext \<Rightarrow> instructionResult \<times> instructionContext" where
  "executeCMP i t ctx =
     (case (rs1 i, rs2 i) of
        (Some s1, Some s2) \<Rightarrow>
          (fallThrough t,
           ctx\<lparr>ctx_registerFile :=
                 snd (ExecutionUnit_compare (ctx_registerFile ctx) (thread_id t) s1 s2)\<rparr>)
      | _ \<Rightarrow> (fallThrough t, ctx))"

definition executeInstruction ::
  "instruction \<Rightarrow> threadState \<Rightarrow> instructionContext
     \<Rightarrow> error + (instructionResult \<times> instructionContext)" where
  "executeInstruction i t ctx =
     (let opc = opcode i in
      if opc = ''NOP'' then Inr (fallThrough t, ctx)
      else if opc = ''CONST'' then Inr (executeCONST i t ctx)
      else if opc \<in> {''ADD'', ''SUB'', ''MUL'', ''DIV'', ''AND'', ''OR'', ''XOR''} then
        Inr (executeALU i t ctx)
      else if opc = ''LDR'' then executeLDR i t ctx
      else if opc = ''STR'' then executeSTR i t ctx
      else if opc \<in> {''BR'', ''BRz'', ''BRnz'', ''BRn'', ''BRp''} then Inr (executeBranch i t ctx)
      else if opc = ''CMP'' then Inr (executeCMP i t ctx)
      else if opc = ''RET'' then
        Inr (\<lparr>nextPC = pc t, shouldBranch = True, memAccess = None\<rparr>, ctx)
      else Inr (fallThrough t, ctx))"

section \<open>Execution engine (execution/execution-engine.ts)\<close>

text \<open>
  The engine owns its own \<open>memory\<close> array, which the cache reads and writes; the
  memory controller holds a second array of the same size, which only
  \<open>processRequests\<close> writes. \<open>getState\<close> returns the engine's memory array itself,
  not a copy, so the caller can store words in it. \<open>config.maxCycles || 1000000\<close>
  replaces a missing bound, 0 and NaN by the default and keeps every other number.
\<close>

record executionConfig =
  cfg_memory :: memoryConfig
  cfg_maxCycles :: "jsnumber option"
  cfg_enableCache :: "bool option"

record engine =
  registerFile :: registerFile
  threadScheduler :: threadScheduler
  memoryController :: memoryController
  cache :: "cache option"
  instructionMemory :: "int list"
  memory :: jsarray
  cycle :: nat
  maxCycles :: jsnumber

definition ExecutionEngine_new :: "executionConfig \<Rightarrow> engine" where
  "ExecutionEngine_new cfg =
     \<lparr>registerFile = RegisterFile_new,
      threadScheduler = ThreadScheduler_new,
      memoryController = MemoryController_new (cfg_memory cfg),
      cache = (if cfg_enableCache cfg \<noteq> Some False then Some (Cache_new (cfg_memory cfg)) else None),
      instructionMemory = [],
      memory = newArrayFill0 (globalMemorySize (cfg_memory cfg)),
      cycle = 0,
      maxCycles = (case cfg_maxCycles cfg of
                     None \<Rightarrow> Finite 1000000
                   | Some m \<Rightarrow> if m = Finite 0 \<or> m = NaN then Finite 1000000 else m)\<rparr>"

definition loadInstructions :: "engine \<Rightarrow> int list \<Rightarrow> engine" where
  "loadInstructions e instructions = e\<lparr>instructionMemory := instructions\<rparr>"

fun initializeThreads :: "threadState list \<Rightarrow> registerFile \<Rightarrow> threadState list \<times> registerFile" where
  \<comment> \<open>\<open>registerFile.initializeThread(thread.id);
      thread.registers = registerFile.getRegisters(thread.id)\<close> for each thread\<close>
  "initializeThreads [] rf = ([], rf)"
| "initializeThreads (t # ts) rf =
     (let (regs, rf') = RegisterFile_getRegisters (RegisterFile_initializeThread rf (thread_id t))
                          (thread_id t);
          (ts', rf'') = initializeThreads ts rf'
      in (t\<lparr>registers := regs\<rparr> # ts', rf''))"

fun initializeBlockRegisters :: "blockState list \<Rightarrow> registerFile \<Rightarrow> blockState list \<times> registerFile" where
  "initializeBlockRegisters [] rf = ([], rf)"
| "initializeBlockRegisters (b # bs) rf =
     (let (ts', rf') = initializeThreads (block_threads b) rf;
          (bs', rf'') = initializeBlockRegisters bs rf'
      in (b\<lparr>block_threads := ts'\<rparr> # bs', rf''))"

definition initializeBlocks :: "engine \<Rightarrow> blockState list \<Rightarrow> engine" where
  "initializeBlocks e blocks =
     (let (blocks', rf') = initializeBlockRegisters blocks (registerFile e)
      in e\<lparr>registerFile := rf',
           threadScheduler := ThreadScheduler_initializeBlocks (threadScheduler e) blocks'\<rparr>)"

definition fetch :: "int list \<Rightarrow> int \<Rightarrow> jsval" where
  \<comment> \<open>\<open>this.instructionMemory[thread.pc]\<close>\<close>
  "fetch imem p = (case jsIndex imem p of Some w \<Rightarrow> Num w | None \<Rightarrow> Undefined)"

definition processThread ::
  "int list \<Rightarrow> threadState \<Rightarrow> instructionContext \<Rightarrow> error + (threadState \<times> instructionContext)" where
  \<comment> \<open>the body of the loop over the active threads of the warp\<close>
  "processThread imem t ctx =
     (if int (length imem) \<le> pc t then Inr (t\<lparr>active := False\<rparr>, ctx)
      else
        let instruction = decode (fetch imem (pc t))
        in case executeInstruction instruction t ctx of
             Inl e \<Rightarrow> Inl e
           | Inr (res, ctx1) \<Rightarrow>
               let (regs, rf) = RegisterFile_getRegisters (ctx_registerFile ctx1) (thread_id t);
                   t' = t\<lparr>pc := nextPC res, registers := regs\<rparr>;
                   ctx2 = ctx1\<lparr>ctx_registerFile := rf\<rparr>
               in case memAccess res of
                    None \<Rightarrow> Inr (t', ctx2)
                  | Some acc \<Rightarrow>
                      Inr (t',
                           ctx2\<lparr>ctx_memoryController :=
                                  MemoryController_request (ctx_memoryController ctx2)
                                    \<lparr>req_address = acc_address acc, req_data = acc_data acc,
                                     req_write = acc_write acc, req_threadId = thread_id t,
                                     req_blockId = thread_blockId t\<rparr>\<rparr>))"

fun processThreads ::
  "int list \<Rightarrow> threadState list \<Rightarrow> instructionContext
     \<Rightarrow> error + (threadState list \<times> instructionContext)" where
  \<comment> \<open>\<open>for (const thread of warp.threads.filter(t => t.active))\<close>: the threads that
      are not active stay as they are\<close>
  "processThreads imem [] ctx = Inr ([], ctx)"
| "processThreads imem (t # ts) ctx =
     (if active t then
        (case processThread imem t ctx of
           Inl e \<Rightarrow> Inl e
         | Inr (t', ctx') \<Rightarrow>
             (case processThreads imem ts ctx' of
                Inl e \<Rightarrow> Inl e
              | Inr (ts', ctx'') \<Rightarrow> Inr (t' # ts', ctx'')))
      else
        (case processThreads imem ts ctx of
           Inl e \<Rightarrow> Inl e
         | Inr (ts', ctx'') \<Rightarrow> Inr (t # ts', ctx'')))"

definition executeCycle :: "engine \<Rightarrow> error + (bool \<times> engine)" where
  "executeCycle e =
     (if reached (cycle e) (maxCycles e) then Inr (False, e)
      else case ThreadScheduler_getNextWarp (threadScheduler e) of
             Inl err \<Rightarrow> Inl err
           | Inr (None, s) \<Rightarrow> Inr (False, e\<lparr>threadScheduler := s\<rparr>)
           | Inr (Some k, s) \<Rightarrow>
               (case processThreads (instructionMemory e) (threads (warps s ! k))
                       \<lparr>ctx_registerFile = registerFile e,
                        ctx_memoryController = memoryController e,
                        ctx_cache = cache e, ctx_memory = memory e\<rparr> of
                  Inl err \<Rightarrow> Inl err
                | Inr (ts', ctx) \<Rightarrow>
                    let s' = ThreadScheduler_tick
                               (s\<lparr>warps := (warps s)[k := (warps s ! k)\<lparr>threads := ts'\<rparr>]\<rparr>)
                    in Inr (\<not> ThreadScheduler_isComplete s',
                            e\<lparr>registerFile := ctx_registerFile ctx,
                              threadScheduler := s',
                              memoryController :=
                                MemoryController_processRequests (ctx_memoryController ctx),
                              cache := ctx_cache ctx,
                              memory := ctx_memory ctx,
                              cycle := increment (cycle e)\<rparr>)))"

record GPUState =
  state_memory :: jsarray
  state_threads :: "threadState list"
  state_blocks :: "blockState list"
  state_cycle :: nat

definition getState :: "engine \<Rightarrow> GPUState" where
  "getState e = \<lparr>state_memory = memory e, state_threads = [], state_blocks = [],
                 state_cycle = cycle e\<rparr>"

definition reset :: "engine \<Rightarrow> engine" where
  "reset e =
     e\<lparr>cycle := 0,
       threadScheduler := ThreadScheduler_reset (threadScheduler e),
       registerFile := RegisterFile_clearAll (registerFile e),
       memory := afill0 (memory e),
       cache := (case cache e of Some c \<Rightarrow> Some (Cache_resetStats c) | None \<Rightarrow> None)\<rparr>"

definition setMemory :: "engine \<Rightarrow> int \<Rightarrow> jsval \<Rightarrow> engine" where
  \<comment> \<open>the caller's \<open>engine.getState().memory[a] = v\<close>\<close>
  "setMemory e a v = e\<lparr>memory := aset (memory e) a v\<rparr>"

text \<open>
  \<open>run\<close> is \<open>while (this.executeCycle()) {}; return this.getState()\<close>. The loop need
  not end, so it is a partial function: \<open>None\<close> is a run that never returns.
  \<open>runLoop\<close> is the loop with a count of the calls of \<open>executeCycle\<close> made so far;
  it returns that count beside the result (a raised error or the state).
\<close>

partial_function (option) runLoop :: "nat \<Rightarrow> engine \<Rightarrow> (nat \<times> (error + GPUState)) option" where
  "runLoop n e =
     (case executeCycle e of
        Inl err \<Rightarrow> Some (Suc n, Inl err)
      | Inr (continue, e') \<Rightarrow>
          if continue then runLoop (Suc n) e' else Some (Suc n, Inr (getState e')))"

definition run :: "engine \<Rightarrow> (error + GPUState) option" where
  "run e = map_option snd (runLoop 0 e)"


section \<open>Concrete machines used in the evaluations\<close>

definition smallConfig :: memoryConfig where
  \<comment> \<open>32 words of memory, a cache of 2 lines of 4 words\<close>
  "smallConfig = \<lparr>globalMemorySize = 32, cacheSize = 2, lineSize = 4, latency = 1\<rparr>"

definition singleThread :: "blockState list" where
  \<comment> \<open>one block with one active thread at PC 0\<close>
  "singleThread =
     [\<lparr>block_id = 0,
       block_threads = [\<lparr>thread_id = 0, thread_blockId = 0, pc = 0, registers = [],
                         active = True\<rparr>]\<rparr>]"

definition threadStates :: "engine \<Rightarrow> (int \<times> bool) list list" where
  \<comment> \<open>the PC and the active flag of every thread, warp by warp\<close>
  "threadStates e = map (\<lambda>w. map (\<lambda>t. (pc t, active t)) (threads w)) (warps (threadScheduler e))"

definition loadedWith :: "jsnumber \<Rightarrow> int list \<Rightarrow> engine" where
  \<comment> \<open>an engine over \<open>smallConfig\<close> with the given \<open>maxCycles\<close>, after
      \<open>loadInstructions\<close> of the program and \<open>initializeBlocks\<close> of \<open>singleThread\<close>\<close>
  "loadedWith m prog =
     initializeBlocks
       (loadInstructions
          (ExecutionEngine_new
             \<lparr>cfg_memory = smallConfig, cfg_maxCycles = Some m, cfg_enableCache = None\<rparr>)
          prog)
       singleThread"

definition loaded :: "int \<Rightarrow> int list \<Rightarrow> engine" where
  \<comment> \<open>the same with an integer bound\<close>
  "loaded m prog = loadedWith (Finite (of_int m)) prog"


fun cycles :: "nat \<Rightarrow> engine \<Rightarrow> error + engine" where
  \<comment> \<open>\<open>n\<close> calls of \<open>executeCycle\<close> in a row\<close>
  "cycles 0 e = Inr e"
| "cycles (Suc n) e =
     (case executeCycle e of Inl err \<Rightarrow> Inl err | Inr (continue, e') \<Rightarrow> cycles n e')"

definition request :: "int \<Rightarrow> jsval \<Rightarrow> bool \<Rightarrow> int \<Rightarrow> memoryRequest" where
  \<comment> \<open>a request of a thread of block 0\<close>
  "request a v w t =
     \<lparr>req_address = a, req_data = v, req_write = w, req_threadId = t, req_blockId = 0\<rparr>"

definition queued :: "memoryRequest list \<Rightarrow> memoryController" where
  \<comment> \<open>a fresh controller over \<open>smallConfig\<close> after \<open>request\<close> of each element\<close>
  "queued reqs = foldl MemoryController_request (MemoryController_new smallConfig) reqs"

section \<open>Properties\<close>

subsection \<open>Evaluation lemmas\<close>

lemma tagShift_2: "tagShift 2 = 3"
  by (simp add: tagShift_def ilog2.simps)

lemma upt_0_4: "[0..<4] = [0, 1, 2, 3]"
  by (simp add: upt_rec)

lemma replicate_2: "replicate 2 x = [x, x]"
  by (simp add: numeral_2_eq_2)

lemma slices_single: "slices warpSize [t] = [[t]]"
  by (simp add: slices.simps [of _ "[t]"] slices.simps [of _ "[]"] warpSize_def)

lemma loadedWith_eq:
  "loadedWith m prog =
     \<lparr>registerFile = RegisterFile_new(0 \<mapsto> replicate 16 (Num 0)),
      threadScheduler =
        \<lparr>warps = [\<lparr>threads = [\<lparr>thread_id = 0, thread_blockId = 0, pc = 0,
                                registers = replicate 16 (Num 0), active = True\<rparr>],
                    warp_active = True, warp_pc = 0\<rparr>],
         currentWarpIndex = 0, sched_cycle = 0\<rparr>,
      memoryController = MemoryController_new smallConfig,
      cache = Some (Cache_new smallConfig),
      instructionMemory = prog,
      memory = newArrayFill0 32,
      cycle = 0,
      maxCycles = (if m = Finite 0 \<or> m = NaN then Finite 1000000 else m)\<rparr>"
  by (simp add: loadedWith_def initializeBlocks_def loadInstructions_def ExecutionEngine_new_def
      singleThread_def ThreadScheduler_initializeBlocks_def ThreadScheduler_new_def
      RegisterFile_getRegisters_def RegisterFile_initializeThread_def RegisterFile_new_def
      numRegisters_def slices_single makeWarp_def smallConfig_def)

lemma loaded_eq:
  "loaded m prog =
     \<lparr>registerFile = RegisterFile_new(0 \<mapsto> replicate 16 (Num 0)),
      threadScheduler =
        \<lparr>warps = [\<lparr>threads = [\<lparr>thread_id = 0, thread_blockId = 0, pc = 0,
                                registers = replicate 16 (Num 0), active = True\<rparr>],
                    warp_active = True, warp_pc = 0\<rparr>],
         currentWarpIndex = 0, sched_cycle = 0\<rparr>,
      memoryController = MemoryController_new smallConfig,
      cache = Some (Cache_new smallConfig),
      instructionMemory = prog,
      memory = newArrayFill0 32,
      cycle = 0,
      maxCycles = (if m = 0 then Finite 1000000 else Finite (of_int m))\<rparr>"
  by (simp add: loaded_def loadedWith_eq)

lemmas decode_eval =
  decode_def getOpcode_def opcodeNum_def opcodeToString_def opcodes_def toUint32_def
  getRd_def getRs1_def getRs2_def getImmediate_def

lemma decode_NOP: "decode (Num 0) = noFields ''NOP''"
  by (simp add: decode_eval)

lemma decode_RET: "decode (Num 285212672) = noFields ''RET''"
  by (simp add: decode_eval)

lemma decode_BR_back:
  "decode (Num 184614911) = (noFields ''BR'')\<lparr>rs1 := Some 0, immediate := Some (- 1)\<rparr>"
  by (simp add: decode_eval)


lemma decode_LDR:
  "decode (Num 150994944) =
     (noFields ''LDR'')\<lparr>rd := Some 0, rs1 := Some 0, immediate := Some 0\<rparr>"
  by (simp add: decode_eval)

lemma decode_CONST_minus1:
  "decode (Num 16842751) = (noFields ''CONST'')\<lparr>rd := Some 0, immediate := Some (- 1)\<rparr>"
  by (simp add: decode_eval)

lemmas cache_eval =
  smallConfig_def Cache_new_def Cache_write_def Cache_read_def loadLine_def getLineIndex_def
  getTag_def getOffset_def jsRem_def toInt32_def jsIndex_def newArrayFill0_def aset_def
  writeBack_def loadWords_def tagShift_2 upt_0_4

lemmas engine_eval =
  loaded_eq executeCycle_def ThreadScheduler_getNextWarp_def jsIndex_def
  processThread_def fetch_def executeInstruction_def noFields_def fallThrough_def
  RegisterFile_getRegisters_def RegisterFile_new_def ThreadScheduler_tick_def
  ThreadScheduler_isComplete_def MemoryController_processRequests_def MemoryController_new_def
  threadStates_def increment_def

subsection \<open>RET and the program counter\<close>

text \<open>
  C1 (the code departs from the claim). The program is the single word \<open>0x11000000\<close>,
  which decodes to RET. After one \<open>executeCycle\<close> the thread is at PC 0 with its
  active flag still set; \<open>executeInstruction\<close> returns \<open>nextPC = thread.pc\<close> and
  nothing clears the flag, so the second cycle fetches and executes the same RET again
  and the thread is as active as before.
\<close>

theorem RET_thread_stays_active:
  "decode (Num 285212672) = noFields ''RET'' \<and>
   (case cycles 1 (loaded 10 [285212672]) of
      Inr e \<Rightarrow> (threadStates e, cycle e) | Inl err \<Rightarrow> ([], 0)) = ([[(0, True)]], 1) \<and>
   (case cycles 2 (loaded 10 [285212672]) of
      Inr e \<Rightarrow> (threadStates e, cycle e) | Inl err \<Rightarrow> ([], 0)) = ([[(0, True)]], 2)"
  by (simp add: engine_eval decode_RET numeral_2_eq_2)

lemma deactivate_inactive: "\<not> active t \<Longrightarrow> t\<lparr>active := False\<rparr> = t"
  by (cases t) simp

lemma processThread_overrun:
  "int (length imem) \<le> pc t \<Longrightarrow> processThread imem t ctx = Inr (t\<lparr>active := False\<rparr>, ctx)"
  by (simp add: processThread_def)

lemma processThread_active:
  assumes "processThread imem t ctx = Inr (t', ctx')" "pc t < int (length imem)"
  shows "active t' = active t"
  using assms
  by (auto simp: processThread_def Let_def split: if_splits sum.splits option.splits prod.splits)

lemma processThreads_overrun:
  "processThreads imem ts ctx =
   processThreads imem
     (map (\<lambda>t. if int (length imem) \<le> pc t then t\<lparr>active := False\<rparr> else t) ts) ctx"
proof (induction ts arbitrary: ctx)
  case Nil
  then show ?case by simp
next
  case (Cons t ts)
  show ?case
  proof (cases "int (length imem) \<le> pc t")
    case False
    with Cons.IH show ?thesis by (simp split: sum.splits)
  next
    case True
    show ?thesis
    proof (cases "active t")
      case False
      with True Cons.IH [of ctx] show ?thesis by (simp add: deactivate_inactive)
    next
      case at: True
      with True Cons.IH [of ctx] show ?thesis by (simp add: processThread_overrun)
    qed
  qed
qed

lemma processThreads_guard:
  "processThreads imem ts ctx = Inr (ts', ctx') \<Longrightarrow>
   list_all2 (\<lambda>t t'. (int (length imem) \<le> pc t \<longrightarrow> t' = t\<lparr>active := False\<rparr>) \<and>
                      (active t' \<longrightarrow> active t \<and> pc t < int (length imem))) ts ts'"
proof (induction ts arbitrary: ts' ctx)
  case Nil
  then show ?case by simp
next
  case (Cons t ts)
  show ?case
  proof (cases "active t")
    case False
    with Cons.prems obtain us where us: "processThreads imem ts ctx = Inr (us, ctx')" "ts' = t # us"
      by (auto split: sum.splits)
    from Cons.IH [OF us(1)] us(2) False show ?thesis by (simp add: deactivate_inactive)
  next
    case True
    with Cons.prems obtain u ctx1 us where
      u: "processThread imem t ctx = Inr (u, ctx1)" and
      us: "processThreads imem ts ctx1 = Inr (us, ctx')" "ts' = u # us"
      by (auto split: sum.splits)
    have "(int (length imem) \<le> pc t \<longrightarrow> u = t\<lparr>active := False\<rparr>) \<and>
          (active u \<longrightarrow> active t \<and> pc t < int (length imem))"
    proof (cases "pc t < int (length imem)")
      case lt: True
      with processThread_active [OF u] True show ?thesis by simp
    next
      case False
      then have "int (length imem) \<le> pc t" by simp
      from processThread_overrun [OF this, of ctx] u False show ?thesis by simp
    qed
    with Cons.IH [OF us(1)] us(2) show ?thesis by simp
  qed
qed

lemma nextWarpLoop_index:
  "nextWarpLoop ws idx n = Inr (Some k, idx') \<Longrightarrow> k < length ws"
  by (induction n arbitrary: idx)
     (auto simp: jsIndex_def Let_def split: if_splits option.splits)

lemma getNextWarp_index:
  assumes "ThreadScheduler_getNextWarp s = Inr (Some k, s')"
  shows "k < length (warps s) \<and> warps s' = warps s"
  using assms nextWarpLoop_index
  by (auto simp: ThreadScheduler_getNextWarp_def split: if_splits sum.splits)

lemma executeCycle_guard:
  assumes "\<not> reached (cycle e) (maxCycles e)"
    and "ThreadScheduler_getNextWarp (threadScheduler e) = Inr (Some k, s)"
    and "executeCycle e = Inr (continue, e')"
  shows "list_all2 (\<lambda>t t'. (int (length (instructionMemory e)) \<le> pc t
                               \<longrightarrow> t' = t\<lparr>active := False\<rparr>) \<and>
                            (active t' \<longrightarrow> active t \<and> pc t < int (length (instructionMemory e))))
           (threads (warps (threadScheduler e) ! k))
           (threads (warps (threadScheduler e') ! k))"
proof -
  from getNextWarp_index [OF assms(2)]
  have k: "k < length (warps s)" and ws: "warps s = warps (threadScheduler e)" by simp_all
  show ?thesis
  proof (cases "processThreads (instructionMemory e) (threads (warps s ! k))
                  \<lparr>ctx_registerFile = registerFile e, ctx_memoryController = memoryController e,
                   ctx_cache = cache e, ctx_memory = memory e\<rparr>")
    case (Inl err)
    with assms show ?thesis by (simp add: executeCycle_def)
  next
    case (Inr r)
    obtain ts' ctx where r: "r = (ts', ctx)" by (cases r)
    from processThreads_guard [OF Inr [unfolded r]] ws k assms Inr r
    show ?thesis by (auto simp: executeCycle_def Let_def ThreadScheduler_tick_def)
  qed
qed

text \<open>
  C4 (amended). What \<open>executeCycle\<close> enforces is the upper bound, and it does so when
  a thread is next processed, not after each cycle. When its loop reaches a thread
  whose PC is at or beyond the end of instruction memory, it sets the active flag to
  false and does nothing else: no instruction is fetched, nothing raises, and the
  thread's PC and registers, the register file, the cache, the memory and the request
  queue are what they were; the warp is processed exactly as if these threads had been
  inactive already. Hence in every cycle that is below the cycle bound, selects warp
  \<open>k\<close> and returns, a thread of that warp whose PC was at or beyond the end is the
  same thread with the flag cleared afterwards, and a thread that is active afterwards
  was active before and was executed at a PC below the length of instruction memory.
  (Nothing is said here about a cycle that raises, nor about a PC below 0.)
\<close>

theorem executeCycle_upper_pc_guard:
  "(int (length imem) \<le> pc t \<longrightarrow>
      processThread imem t ctx = Inr (t\<lparr>active := False\<rparr>, ctx)) \<and>
   processThreads imem ts ctx =
     processThreads imem
       (map (\<lambda>t. if int (length imem) \<le> pc t then t\<lparr>active := False\<rparr> else t) ts) ctx \<and>
   (\<not> reached (cycle e) (maxCycles e) \<and>
    ThreadScheduler_getNextWarp (threadScheduler e) = Inr (Some k, s) \<and>
    executeCycle e = Inr (continue, e') \<longrightarrow>
      list_all2 (\<lambda>t t'. (int (length (instructionMemory e)) \<le> pc t
                            \<longrightarrow> t' = t\<lparr>active := False\<rparr>) \<and>
                         (active t' \<longrightarrow> active t \<and> pc t < int (length (instructionMemory e))))
        (threads (warps (threadScheduler e) ! k))
        (threads (warps (threadScheduler e') ! k)))"
  using processThread_overrun [of imem t ctx] processThreads_overrun [of imem ts ctx]
    executeCycle_guard [of e k s continue e']
  by blast

text \<open>
  Witness for C4: with an empty program the thread's PC 0 is not below the length 0.
  The loop body only clears the flag, and the first cycle, which selects warp 0 and
  returns false, leaves the thread inactive at PC 0 with the register file as it was.
\<close>

theorem executeCycle_upper_pc_guard_witness:
  "processThread []
     \<lparr>thread_id = 0, thread_blockId = 0, pc = 0, registers = [], active = True\<rparr>
     \<lparr>ctx_registerFile = RegisterFile_new, ctx_memoryController = MemoryController_new smallConfig,
      ctx_cache = None, ctx_memory = newArrayFill0 32\<rparr>
   = Inr (\<lparr>thread_id = 0, thread_blockId = 0, pc = 0, registers = [], active = False\<rparr>,
          \<lparr>ctx_registerFile = RegisterFile_new,
           ctx_memoryController = MemoryController_new smallConfig,
           ctx_cache = None, ctx_memory = newArrayFill0 32\<rparr>) \<and>
   \<not> reached (cycle (loaded 10 [])) (maxCycles (loaded 10 [])) \<and>
   ThreadScheduler_getNextWarp (threadScheduler (loaded 10 []))
     = Inr (Some 0, threadScheduler (loaded 10 [])) \<and>
   (case executeCycle (loaded 10 []) of
      Inl err \<Rightarrow> False
    | Inr (continue, e') \<Rightarrow>
        threadStates e' = [[(0, False)]] \<and> \<not> continue \<and>
        registerFile e' = registerFile (loaded 10 []))"
proof -
  obtain e' where ex: "executeCycle (loaded 10 []) = Inr (False, e')"
    and obs: "registerFile e' = registerFile (loaded 10 [])"
      "length (warps (threadScheduler e')) = 1"
      "length (threads (warps (threadScheduler e') ! 0)) = 1"
    by (simp add: engine_eval)
  have pre: "\<not> reached (cycle (loaded 10 [])) (maxCycles (loaded 10 []))"
    "ThreadScheduler_getNextWarp (threadScheduler (loaded 10 []))
       = Inr (Some 0, threadScheduler (loaded 10 []))"
    by (simp_all add: engine_eval)
  from executeCycle_upper_pc_guard
         [where imem = "[]" and e = "loaded 10 []" and k = 0
            and s = "threadScheduler (loaded 10 [])" and continue = False and e' = e'
            and t = "\<lparr>thread_id = 0, thread_blockId = 0, pc = 0, registers = [], active = True\<rparr>"
            and ctx = "\<lparr>ctx_registerFile = RegisterFile_new,
                        ctx_memoryController = MemoryController_new smallConfig,
                        ctx_cache = None, ctx_memory = newArrayFill0 32\<rparr>"]
    pre ex
  have body: "processThread []
       \<lparr>thread_id = 0, thread_blockId = 0, pc = 0, registers = [], active = True\<rparr>
       \<lparr>ctx_registerFile = RegisterFile_new, ctx_memoryController = MemoryController_new smallConfig,
        ctx_cache = None, ctx_memory = newArrayFill0 32\<rparr>
     = Inr (\<lparr>thread_id = 0, thread_blockId = 0, pc = 0, registers = [], active = False\<rparr>,
            \<lparr>ctx_registerFile = RegisterFile_new,
             ctx_memoryController = MemoryController_new smallConfig,
             ctx_cache = None, ctx_memory = newArrayFill0 32\<rparr>)"
    and rel: "list_all2 (\<lambda>t t'. (int (length (instructionMemory (loaded 10 []))) \<le> pc t
                               \<longrightarrow> t' = t\<lparr>active := False\<rparr>) \<and>
                            (active t' \<longrightarrow> active t \<and>
                               pc t < int (length (instructionMemory (loaded 10 [])))))
           (threads (warps (threadScheduler (loaded 10 [])) ! 0))
           (threads (warps (threadScheduler e') ! 0))"
    by simp_all
  from rel obs(2,3) have "threadStates e' = [[(0, False)]]"
    by (cases "warps (threadScheduler e')"; cases "threads (warps (threadScheduler e') ! 0)")
       (auto simp: loaded_eq threadStates_def list_all2_Cons1)
  with body pre ex obs show ?thesis by simp
qed

text \<open>
  Counterexample to C4 as stated: after one cycle of the program \<open>NOP\<close> the thread is
  active with PC 1, the length of instruction memory; after one cycle of the program
  \<open>BR #-1\<close> (\<open>0x0B00FFFF\<close>) the thread is active with PC \<open>-1\<close>.
\<close>

theorem active_thread_pc_out_of_range:
  "(case cycles 1 (loaded 10 [0]) of Inr e \<Rightarrow> threadStates e | Inl err \<Rightarrow> []) = [[(1, True)]] \<and>
   (case cycles 1 (loaded 10 [184614911]) of Inr e \<Rightarrow> threadStates e | Inl err \<Rightarrow> [])
     = [[(- 1, True)]]"
  by (simp add: engine_eval decode_NOP decode_BR_back executeBranch_def)

subsection \<open>Cache and memory controller\<close>

text \<open>
  C2 (the code departs from the claim). Over a cache of 2 lines, 7 is written to
  address 5 and 42 to address 8; the reads of 12 and 16 then evict both lines. The
  line of address 8 has tag 1 and index 0, and \<open>loadLine\<close> writes it back at
  \<open>(tag << 2) | (lineIndex << 2) = 4\<close> instead of 8, over the words 4 to 7. The last
  read, of address 5, misses and returns 0, and memory word 5 is 0 as well: the value
  7 written last is lost.
\<close>

theorem cache_write_back_clobbers_other_line:
  "(case runCacheOps [Write 5 (Num 7), Write 8 (Num 42), Read 12, Read 16, Read 5]
           (Cache_new smallConfig, newArrayFill0 32) of
      Inr (vs, c, mem) \<Rightarrow> (vs, aget mem 4, aget mem 5)
    | Inl err \<Rightarrow> ([], Undefined, Undefined))
   = ([Num 0, Num 0, Num 0], Num 42, Num 0)"
  by (simp add: cache_eval)

text \<open>
  C3 (the code departs from the claim). Three threads access address 0 in one batch: a
  read, a write of 5 and a write of 6; the queue is in address order already, so the
  sort leaves it as it is. Serviced one by one, the read answers 0 and memory word 0
  ends as 6. \<open>processRequests\<close> services the second write at once,
  because it coalesces with the first, and the read and the first write only in its
  second loop: the read answers 6 and memory word 0 ends as 5.
\<close>

theorem coalescing_reorders_same_address:
  "sort_key req_address [request 0 Undefined False 0, request 0 (Num 5) True 1,
                         request 0 (Num 6) True 2]
     = [request 0 Undefined False 0, request 0 (Num 5) True 1, request 0 (Num 6) True 2] \<and>
   (let mc = MemoryController_processRequests
               (queued [request 0 Undefined False 0, request 0 (Num 5) True 1,
                        request 0 (Num 6) True 2])
    in (aget (mc_memory mc) 0, map_option resp_data (responseQueue mc 0), pendingRequests mc))
     = (Num 5, Some (Num 6), []) \<and>
   (let mc = serviceIndividually
               (queued [request 0 Undefined False 0, request 0 (Num 5) True 1,
                        request 0 (Num 6) True 2])
    in (aget (mc_memory mc) 0, map_option resp_data (responseQueue mc 0), pendingRequests mc))
     = (Num 6, Some (Num 0), [])"
  by (simp add: queued_def request_def MemoryController_request_def MemoryController_new_def
      MemoryController_processRequests_def serviceIndividually_def serviceRequest_def
      canCoalesce_def getRequestId_def sort_key_def smallConfig_def newArrayFill0_def aset_def)

text \<open>
  C7 (the code departs from the claim). Memory has 32 words and the address is 40. The
  direct path of the memory controller does what the claim says: \<open>read\<close> returns 0
  and \<open>write\<close> changes nothing. On the queued path a write request stores the value
  and the array grows to 41 words, and a read request is answered with \<open>undefined\<close>.
  \<open>Cache.write\<close> stores the value in memory as well, and the array grows to 41 words.
  At address \<open>0xFFFFFFFF\<close> the line index \<open>(address >> 2) % 2\<close> is \<open>-1\<close> and
  \<open>Cache.read\<close> raises a TypeError instead of returning 0; the program
  \<open>CONST R0, #-1; LDR R0, [R0 + 0]\<close> makes that access in its second cycle.
\<close>

theorem out_of_range_write_is_not_dropped:
  "MemoryController_read (MemoryController_new smallConfig) 40 = Num 0 \<and>
   MemoryController_write (MemoryController_new smallConfig) 40 (Num 5)
     = MemoryController_new smallConfig \<and>
   (let mc = MemoryController_processRequests (queued [request 40 (Num 5) True 0])
    in (alength (mc_memory mc), aget (mc_memory mc) 40)) = (41, Num 5) \<and>
   (let mc = MemoryController_processRequests (queued [request 40 Undefined False 0])
    in map_option resp_data (responseQueue mc 40)) = Some Undefined \<and>
   (case Cache_write (Cache_new smallConfig) 40 (Num 5) (newArrayFill0 32) of
      Inr (b, c, mem) \<Rightarrow> (alength mem, aget mem 40)
    | Inl err \<Rightarrow> (0, Undefined)) = (41, Num 5) \<and>
   Cache_read (Cache_new smallConfig) 4294967295 (newArrayFill0 32) = Inl TypeError \<and>
   cycles 2 (loaded 10 [16842751, 150994944]) = Inl TypeError"
proof -
  have direct:
    "MemoryController_read (MemoryController_new smallConfig) 40 = Num 0 \<and>
     MemoryController_write (MemoryController_new smallConfig) 40 (Num 5)
       = MemoryController_new smallConfig"
    by (simp add: MemoryController_new_def MemoryController_read_def MemoryController_write_def
        smallConfig_def newArrayFill0_def)
  have queue:
    "(let mc = MemoryController_processRequests (queued [request 40 (Num 5) True 0])
      in (alength (mc_memory mc), aget (mc_memory mc) 40)) = (41, Num 5) \<and>
     (let mc = MemoryController_processRequests (queued [request 40 Undefined False 0])
      in map_option resp_data (responseQueue mc 40)) = Some Undefined"
    by (simp add: queued_def request_def MemoryController_request_def MemoryController_new_def
        MemoryController_processRequests_def serviceRequest_def getRequestId_def sort_key_def
        smallConfig_def newArrayFill0_def aset_def)
  have cached:
    "(case Cache_write (Cache_new smallConfig) 40 (Num 5) (newArrayFill0 32) of
        Inr (b, c, mem) \<Rightarrow> (alength mem, aget mem 40)
      | Inl err \<Rightarrow> (0, Undefined)) = (41, Num 5) \<and>
     Cache_read (Cache_new smallConfig) 4294967295 (newArrayFill0 32) = Inl TypeError"
    by (simp add: cache_eval)
  have program: "cycles 2 (loaded 10 [16842751, 150994944]) = Inl TypeError"
    by (simp add: engine_eval decode_CONST_minus1 decode_LDR executeCONST_def executeLDR_def
        immediateOr0_def RegisterFile_read_def RegisterFile_write_def
        RegisterFile_initializeThread_def numRegisters_def toUint32_def cache_eval
        numeral_2_eq_2)
  from direct queue cached program show ?thesis by simp
qed

subsection \<open>Arithmetic and decoding\<close>

text \<open>
  C5 (the code departs from the claim). With both operands the minimum signed value
  \<open>0x80000000\<close>, the sum wraps to 0: the operands share sign bit 1, the result has sign
  bit 0, so the ADD law asks for the overflow flag, and \<open>executeALU\<close> returns it
  cleared, because \<open>checkAddOverflow\<close> tests \<open>resultSigned > 0\<close>. For SUB,
  \<open>0 - 0x80000000\<close> wraps to \<open>0x80000000\<close>: the signs differ and the result's sign
  differs from the minuend's, yet the flag is cleared, because \<open>checkSubOverflow\<close>
  tests \<open>aSigned > 0\<close>.
\<close>

theorem executeALU_overflow_misses_min_and_zero:
  "overflow (fst (ExecutionUnit_executeALU (regsOf [Num 2147483648, Num 2147483648]) 0 ''ADD'' 0 1))
     = False \<and>
   result (fst (ExecutionUnit_executeALU (regsOf [Num 2147483648, Num 2147483648]) 0 ''ADD'' 0 1))
     = 0 \<and>
   addOverflowLaw 2147483648 2147483648 = True \<and>
   overflow (fst (ExecutionUnit_executeALU (regsOf [Num 0, Num 2147483648]) 0 ''SUB'' 0 1))
     = False \<and>
   result (fst (ExecutionUnit_executeALU (regsOf [Num 0, Num 2147483648]) 0 ''SUB'' 0 1))
     = 2147483648 \<and>
   subOverflowLaw 0 2147483648 = True"
  by (simp add: ExecutionUnit_executeALU_def RegisterFile_read_def regsOf_def jsIndex_def
      numRegisters_def checkAddOverflow_def checkSubOverflow_def toInt32_def toUint32_def
      addOverflowLaw_def subOverflowLaw_def signBit_def)

lemma opcodeToString_unknown:
  "opc \<notin> {0..17} \<Longrightarrow> opcodeToString opc = ''NOP''"
  by (auto simp: opcodeToString_def opcodes_def)

text \<open>
  C9. \<open>decode\<close> is a function from every value an instruction word can take (every
  32-bit word, and also \<open>undefined\<close>) to an \<open>Instruction\<close>: it has no failing branch,
  its opcode is one of the 18 defined names, and a word whose opcode byte is not one
  of \<open>0x00\<close> to \<open>0x11\<close> decodes to the bare \<open>NOP\<close> instruction.
\<close>

theorem decode_total_unknown_NOP:
  "opcode (decode w) \<in> snd ` set opcodes \<and>
   (opcodeNum w \<notin> {0..17} \<longrightarrow> decode w = noFields ''NOP'')"
proof
  show "opcode (decode w) \<in> snd ` set opcodes"
    by (simp add: decode_def Let_def noFields_def opcodes_def)
  show "opcodeNum w \<notin> {0..17} \<longrightarrow> decode w = noFields ''NOP''"
    by (simp add: decode_def getOpcode_def opcodeToString_unknown)
qed

theorem decode_total_unknown_NOP_witness:
  "opcodeNum (Num 4278190080) \<notin> {0..17} \<and> decode (Num 4278190080) = noFields ''NOP''"
  using decode_total_unknown_NOP [of "Num 4278190080"]
  by (simp add: opcodeNum_def toUint32_def)

subsection \<open>The cycle bound of run\<close>
















subsection \<open>Reset\<close>

text \<open>
  What \<open>reset\<close> does: the cycle counter is 0, the register file holds no thread, every
  word of the engine's memory is 0 and its length is unchanged, the scheduler has no
  warps and its counters are 0, and the hit and miss counters of the cache are 0;
  the lines of the cache, the memory controller, the loaded instruction memory and
  \<open>maxCycles\<close> are what they were.
\<close>

lemma reset_frame:
  "cycle (reset e) = 0 \<and>
   registerFile (reset e) = RegisterFile_new \<and>
   alength (memory (reset e)) = alength (memory e) \<and>
   (\<forall>i. 0 \<le> i \<and> i < int (alength (memory e)) \<longrightarrow> aget (memory (reset e)) i = Num 0) \<and>
   threadScheduler (reset e) = ThreadScheduler_new \<and>
   map_option hits (cache (reset e)) = map_option (\<lambda>c. 0) (cache e) \<and>
   map_option misses (cache (reset e)) = map_option (\<lambda>c. 0) (cache e) \<and>
   map_option lines (cache (reset e)) = map_option lines (cache e) \<and>
   map_option config (cache (reset e)) = map_option config (cache e) \<and>
   memoryController (reset e) = memoryController e \<and>
   instructionMemory (reset e) = instructionMemory e \<and>
   maxCycles (reset e) = maxCycles e"
  by (cases "cache e")
     (simp_all add: reset_def afill0_def RegisterFile_clearAll_def RegisterFile_new_def
       ThreadScheduler_reset_def ThreadScheduler_new_def Cache_resetStats_def)

text \<open>
  C8 (the code departs from the claim). The caller stores 1234 in memory word 0 and the
  program \<open>LDR R0, [R0 + 0]\<close> (\<open>0x09000000\<close>) loads it in one cycle, which makes
  line 0 of the cache valid. After \<open>reset\<close> memory word 0 is 0, but line 0 is still
  valid and holds 1234. With the thread registered again, the next cycle's load hits:
  it is counted as a hit and sets R0 to 1234 while memory word 0 is 0. On a new
  engine the same load misses and sets R0 to 0, and a new cache has no valid line.
\<close>

theorem reset_leaves_stale_cache_line:
  "(case cycles 1 (setMemory (loaded 10 [150994944]) 0 (Num 1234)) of
      Inl err \<Rightarrow> None
    | Inr e1 \<Rightarrow>
        (case cycles 1 (initializeBlocks (reset e1) singleThread) of
           Inl err \<Rightarrow> None
         | Inr e2 \<Rightarrow>
             Some (aget (memory (reset e1)) 0,
                   map_option (\<lambda>c. map valid (lines c)) (cache (reset e1)),
                   fst (RegisterFile_read (registerFile e2) 0 0),
                   aget (memory e2) 0,
                   map_option hits (cache e2), map_option misses (cache e2))))
     = Some (Num 0, Some [True, False], Num 1234, Num 0, Some 1, Some 0) \<and>
   (case cycles 1 (loaded 10 [150994944]) of
      Inl err \<Rightarrow> None
    | Inr e \<Rightarrow>
        Some (fst (RegisterFile_read (registerFile e) 0 0),
              map_option hits (cache e), map_option misses (cache e)))
     = Some (Num 0, Some 0, Some 1) \<and>
   map valid (lines (Cache_new smallConfig)) = [False, False]"
  by (simp add: engine_eval setMemory_def decode_LDR executeLDR_def immediateOr0_def
      RegisterFile_read_def RegisterFile_write_def RegisterFile_initializeThread_def
      numRegisters_def toUint32_def cache_eval replicate_2 reset_def Cache_resetStats_def
      afill0_def RegisterFile_clearAll_def ThreadScheduler_reset_def
      initializeBlocks_def singleThread_def ThreadScheduler_initializeBlocks_def
      slices_single makeWarp_def)

subsection \<open>Cache statistics\<close>

lemma loadLine_frame:
  assumes "loadLine c a mem = Inr (c', mem')"
  shows "hits c' = hits c \<and> misses c' = misses c \<and> length (lines c') = length (lines c) \<and>
         config c' = config c"
  using assms
  by (auto simp: loadLine_def Let_def split: option.splits)

lemma Cache_read_counts:
  assumes "Cache_read c a mem = Inr (r, c', mem')"
  shows "(hits c' = hits c + 1 \<and> misses c' = misses c) \<or>
         (hits c' = hits c \<and> misses c' = misses c + 1)"
  using assms
  by (auto simp: Cache_read_def Let_def split: option.splits if_splits sum.splits
      dest!: loadLine_frame)

lemma Cache_write_counts:
  assumes "Cache_write c a v mem = Inr (b, c', mem')"
  shows "(hits c' = hits c + 1 \<and> misses c' = misses c) \<or>
         (hits c' = hits c \<and> misses c' = misses c + 1)"
  using assms
  by (auto simp: Cache_write_def Let_def split: option.splits if_splits sum.splits
      dest!: loadLine_frame)

lemma runCacheOps_counts:
  "runCacheOps ops (c, mem) = Inr (vs, c', mem') \<Longrightarrow>
   hits c' + misses c' = hits c + misses c + length ops"
proof (induction ops arbitrary: c mem vs)
  case Nil
  then show ?case by simp
next
  case (Cons op ops)
  show ?case
  proof (cases op)
    case (Read a)
    with Cons.prems obtain v h c1 mem1 vs1 where
      r: "Cache_read c a mem = Inr ((v, h), c1, mem1)" and
      rest: "runCacheOps ops (c1, mem1) = Inr (vs1, c', mem')"
      by (auto split: sum.splits)
    from Cache_read_counts [OF r] Cons.IH [OF rest] show ?thesis by auto
  next
    case (Write a v)
    with Cons.prems obtain b c1 mem1 where
      w: "Cache_write c a v mem = Inr (b, c1, mem1)" and
      rest: "runCacheOps ops (c1, mem1) = Inr (vs, c', mem')"
      by (auto split: sum.splits)
    from Cache_write_counts [OF w] Cons.IH [OF rest] show ?thesis by auto
  qed
qed

lemma lineIndex_in_range:
  assumes "length (lines c) = cacheSize (config c)" "0 < cacheSize (config c)"
    "0 \<le> a" "a < 2147483648"
  shows "0 \<le> getLineIndex c a \<and> getLineIndex c a < int (length (lines c))"
proof -
  from assms(3,4) have "toInt32 a = a" by (simp add: toInt32_def)
  moreover from assms(3) have "0 \<le> a div 4" by simp
  ultimately show ?thesis using assms(1,2)
    by (simp add: getLineIndex_def jsRem_def)
qed

lemma loadLine_returns:
  assumes "0 \<le> getLineIndex c a" "getLineIndex c a < int (length (lines c))"
  shows "\<exists>c' mem'. loadLine c a mem = Inr (c', mem') \<and> length (lines c') = length (lines c)"
  using assms by (simp add: loadLine_def Let_def jsIndex_def)

lemma Cache_access_returns:
  assumes "length (lines c) = cacheSize (config c)" "0 < cacheSize (config c)"
    "0 \<le> a" "a < 2147483648"
  shows "\<not> isl (Cache_read c a mem) \<and> \<not> isl (Cache_write c a v mem)"
proof -
  let ?c = "c\<lparr>misses := misses c + 1\<rparr>"
  from lineIndex_in_range [OF assms]
  have idx: "0 \<le> getLineIndex c a" "getLineIndex c a < int (length (lines c))" by simp_all
  have same: "getLineIndex ?c a = getLineIndex c a" by (simp add: getLineIndex_def)
  from idx same have "0 \<le> getLineIndex ?c a" "getLineIndex ?c a < int (length (lines ?c))"
    by simp_all
  from loadLine_returns [OF this, of mem] obtain c' mem' where
    ld: "loadLine ?c a mem = Inr (c', mem')" and len: "length (lines c') = length (lines c)"
    by auto
  from idx len ld show ?thesis
    by (simp add: Cache_read_def Cache_write_def Let_def jsIndex_def)
qed

lemma loadLine_wf:
  assumes "loadLine c a mem = Inr (c', mem')"
  shows "length (lines c') = length (lines c) \<and> config c' = config c"
  using assms by (auto simp: loadLine_def Let_def split: option.splits)

lemma Cache_read_wf:
  assumes "Cache_read c a mem = Inr (r, c', mem')"
  shows "length (lines c') = length (lines c) \<and> config c' = config c"
  using assms
  by (auto simp: Cache_read_def Let_def split: option.splits if_splits sum.splits
      dest!: loadLine_wf)

lemma Cache_write_wf:
  assumes "Cache_write c a v mem = Inr (b, c', mem')"
  shows "length (lines c') = length (lines c) \<and> config c' = config c"
  using assms
  by (auto simp: Cache_write_def Let_def split: option.splits if_splits sum.splits
      dest!: loadLine_wf)

lemma runCacheOps_returns:
  "length (lines c) = cacheSize (config c) \<Longrightarrow> 0 < cacheSize (config c) \<Longrightarrow>
   list_all (\<lambda>op. 0 \<le> opAddress op \<and> opAddress op < 2147483648) ops \<Longrightarrow>
   \<not> isl (runCacheOps ops (c, mem))"
proof (induction ops arbitrary: c mem)
  case Nil
  then show ?case by simp
next
  case (Cons op ops)
  show ?case
  proof (cases op)
    case (Read a)
    with Cons.prems have a: "0 \<le> a" "a < 2147483648" by simp_all
    from Cache_access_returns [OF Cons.prems(1,2) a, of mem]
    obtain v h c1 mem1 where r: "Cache_read c a mem = Inr ((v, h), c1, mem1)"
      by (cases "Cache_read c a mem") auto
    from Cache_read_wf [OF r] Cons.prems
    have "\<not> isl (runCacheOps ops (c1, mem1))" by (intro Cons.IH) simp_all
    with r Read show ?thesis by (auto split: sum.splits)
  next
    case (Write a v)
    with Cons.prems have a: "0 \<le> a" "a < 2147483648" by simp_all
    from Cache_access_returns [OF Cons.prems(1,2) a, of mem v]
    obtain b c1 mem1 where w: "Cache_write c a v mem = Inr (b, c1, mem1)"
      by (cases "Cache_write c a v mem") auto
    from Cache_write_wf [OF w] Cons.prems
    have "\<not> isl (runCacheOps ops (c1, mem1))" by (intro Cons.IH) simp_all
    with w Write show ?thesis by (auto split: sum.splits)
  qed
qed

lemma hitRate_bounds:
  "hitRate (Cache_getStats c) =
     (if 0 < hits c + misses c then real (hits c) / real (hits c + misses c) else 0) \<and>
   0 \<le> hitRate (Cache_getStats c) \<and> hitRate (Cache_getStats c) \<le> 1"
  by (simp add: Cache_getStats_def Let_def divide_le_eq)

text \<open>
  What holds of the counters. On a cache that has its \<open>cacheSize \<ge> 1\<close> lines, every call of
  \<open>Cache.read\<close> or \<open>Cache.write\<close> with an address in \<open>[0, 2^31)\<close> returns, and so
  does every sequence of such calls; every call that returns increments exactly one
  of the hit counter and the miss counter by exactly one, so after a sequence of calls
  \<open>hits + misses\<close> has grown by the number of calls. The counters are 0 at
  construction and after \<open>resetStats\<close>. \<open>getStats\<close> reports the two counters, and
  \<open>hitRate\<close> is \<open>hits / (hits + misses)\<close> when that total is positive and 0
  otherwise, hence in \<open>[0, 1]\<close>.
\<close>

lemma cache_counts_each_returning_access:
  "(Cache_read c a mem = Inr (r, c', mem') \<longrightarrow>
      (hits c' = hits c + 1 \<and> misses c' = misses c) \<or>
      (hits c' = hits c \<and> misses c' = misses c + 1)) \<and>
   (Cache_write c a v mem = Inr (b, c', mem') \<longrightarrow>
      (hits c' = hits c + 1 \<and> misses c' = misses c) \<or>
      (hits c' = hits c \<and> misses c' = misses c + 1)) \<and>
   (runCacheOps ops (c, mem) = Inr (vs, c', mem') \<longrightarrow>
      hits c' + misses c' = hits c + misses c + length ops) \<and>
   (length (lines c) = cacheSize (config c) \<and> 0 < cacheSize (config c) \<and>
    0 \<le> a \<and> a < 2147483648 \<longrightarrow>
      \<not> isl (Cache_read c a mem) \<and> \<not> isl (Cache_write c a v mem)) \<and>
   (length (lines c) = cacheSize (config c) \<and> 0 < cacheSize (config c) \<and>
    list_all (\<lambda>op. 0 \<le> opAddress op \<and> opAddress op < 2147483648) ops \<longrightarrow>
      \<not> isl (runCacheOps ops (c, mem))) \<and>
   hits (Cache_new cfg) + misses (Cache_new cfg) = 0 \<and>
   hits (Cache_resetStats c) + misses (Cache_resetStats c) = 0 \<and>
   stat_hits (Cache_getStats c) = hits c \<and> stat_misses (Cache_getStats c) = misses c \<and>
   hitRate (Cache_getStats c) =
     (if 0 < hits c + misses c then real (hits c) / real (hits c + misses c) else 0) \<and>
   0 \<le> hitRate (Cache_getStats c) \<and> hitRate (Cache_getStats c) \<le> 1"
  using Cache_read_counts [of c a mem r c' mem'] Cache_write_counts [of c a v mem b c' mem']
    runCacheOps_counts [of ops c mem vs c' mem'] Cache_access_returns [of c a mem v]
    runCacheOps_returns [of c ops mem] hitRate_bounds [of c]
  by (simp add: Cache_new_def Cache_resetStats_def Cache_getStats_def Let_def)

text \<open>
  For example, a write and two reads against a new cache return, and the counters then
  add up to 3 (one hit, two misses).
\<close>

lemma cache_counts_example:
  "(case runCacheOps [Write 5 (Num 7), Read 5, Read 9] (Cache_new smallConfig, newArrayFill0 32) of
      Inr (vs, c', mem') \<Rightarrow> hits c' + misses c' = 3 \<and> hits c' = 1 \<and> vs = [Num 7, Num 0]
    | Inl err \<Rightarrow> False) \<and>
   \<not> isl (Cache_read (Cache_new smallConfig) 5 (newArrayFill0 32))"
proof -
  obtain vs c' mem' where
    run: "runCacheOps [Write 5 (Num 7), Read 5, Read 9] (Cache_new smallConfig, newArrayFill0 32)
            = Inr (vs, c', mem')"
    and obs: "hits c' = 1" "vs = [Num 7, Num 0]"
    by (simp add: cache_eval)
  have wf: "length (lines (Cache_new smallConfig)) = cacheSize (config (Cache_new smallConfig)) \<and>
            0 < cacheSize (config (Cache_new smallConfig)) \<and> (0::int) \<le> 5 \<and> (5::int) < 2147483648"
    by (simp add: Cache_new_def smallConfig_def)
  from cache_counts_each_returning_access
         [of "Cache_new smallConfig" 5 "newArrayFill0 32" _ c' mem' _ _
             "[Write 5 (Num 7), Read 5, Read 9]" vs] run wf
  have "hits c' + misses c' = 3 \<and> \<not> isl (Cache_read (Cache_new smallConfig) 5 (newArrayFill0 32))"
    by (simp add: Cache_new_def)
  with run obs show ?thesis by simp
qed

text \<open>
  C10 (the code departs from the claim). At address \<open>0xFFFFFFFF\<close> (a load at register
  value \<open>-1\<close> computes it) the line index \<open>(address >> 2) % 2\<close> is \<open>-1\<close>,
  \<open>this.lines[-1]\<close> is \<open>undefined\<close>, and both \<open>Cache.read\<close> and \<open>Cache.write\<close>
  raise a TypeError at \<open>line.valid\<close>, before either counter is incremented: the call
  is counted neither as a hit nor as a miss. After a read that was counted, such a
  read ends the sequence with the counters at one call.
\<close>

theorem cache_access_raises:
  "Cache_read (Cache_new smallConfig) 4294967295 (newArrayFill0 32) = Inl TypeError \<and>
   Cache_write (Cache_new smallConfig) 4294967295 (Num 1) (newArrayFill0 32) = Inl TypeError \<and>
   (case Cache_read (Cache_new smallConfig) 5 (newArrayFill0 32) of
      Inl err \<Rightarrow> None
    | Inr (r, c, mem) \<Rightarrow> Some (hits c + misses c, isl (Cache_read c 4294967295 mem)))
     = Some (1, True)"
  by (simp add: cache_eval)

end

